theory Spec2Isabelle
  imports Main
begin

section \<open>Syntax trees consumed from the parsing front-end\<close>

text \<open>
  The program works on the trees of Go's \<^verbatim>\<open>go/ast\<close>. The embedding keeps the node
  classes that \<^verbatim>\<open>inspect.go\<close> tests for, with the positions it reads, and one generic
  constructor per syntactic class (\<open>OtherExpr\<close>, \<open>OtherStmt\<close>) that stands for every
  node class the program never matches and carries the children a traversal descends into.
  A \<^verbatim>\<open>token.Pos\<close> is an integer; \<^verbatim>\<open>token.NoPos\<close> is 0.
\<close>

type_synonym Pos = int

definition NoPos :: Pos where
  "NoPos = 0"

text \<open>\<^verbatim>\<open>ast.BasicLit\<close>: a literal, here a struct tag.\<close>

datatype BasicLit = BasicLit (ValuePos: Pos) (Kind: string) (Value: string)

text \<open>
  \<^verbatim>\<open>ast.Ident\<close>. \<open>Obj\<close> is the position of the declaration the front-end resolved the
  identifier to (\<^verbatim>\<open>Ident.Obj\<close>, nil when unresolved).
\<close>

datatype Ident = Ident (NamePos: Pos) (Name: string) (Obj: "Pos option")

datatype Expr =
    IdentE Ident
  | StarExpr Pos Expr
  | SelectorExpr Expr Ident
  | ChanType Pos Expr
  | ArrayType Pos "Expr option" Expr
  | MapType Pos Expr Expr
  | InterfaceType Pos FieldList
  | StructType Pos FieldList
  | FuncTypeE Pos FieldList FieldList
  | CompositeLit "Expr option" Pos "Expr list"
  | FuncLit Pos FieldList FieldList "Stmt list"
  | OtherExpr Pos "Expr list"
and FieldList =
    NilFieldList
  | FieldList "Field list"
and Field =
    Field (Names: "Ident list") (Type: Expr) (Tag: "BasicLit option")
and Stmt =
    ExprStmt Expr
  | DeclStmt Decl
  | OtherStmt "Expr list" "Stmt list"
and Decl =
    GenDecl "string option" "Spec list"
  | FuncDecl "string option" FieldList Ident Pos FieldList FieldList "Stmt list"
and Spec =
    TypeSpec "string option" Ident Pos "Expr option"
  | ValueSpec "string option" Ident "Ident list" "Expr option" "Expr list"
  | ImportSpec "string option" string

text \<open>
  Reading the constructors against \<^verbatim>\<open>go/ast\<close>:
  \<^item> \<open>StarExpr star x\<close>, \<open>SelectorExpr x sel\<close>, \<open>ChanType begin value\<close>,
    \<open>ArrayType lbrack len elt\<close>, \<open>MapType map key value\<close>,
    \<open>InterfaceType interface methods\<close>, \<open>StructType struct fields\<close>;
  \<^item> \<open>FuncTypeE func params results\<close> is an \<^verbatim>\<open>ast.FuncType\<close>;
    \<open>FuncLit func params results body\<close> is an \<^verbatim>\<open>ast.FuncLit\<close> with its type inlined;
  \<^item> \<open>CompositeLit type lbrace elts\<close>;
  \<^item> \<open>GenDecl doc specs\<close>; \<open>FuncDecl doc recv name func params results body\<close>;
  \<^item> \<open>TypeSpec doc name assign type\<close> (\<open>assign\<close> is the position of \<^verbatim>\<open>=\<close>, \<open>NoPos\<close>
    for a definition); \<open>ValueSpec doc name names type values\<close>, where \<open>name\<close> is
    \<^verbatim>\<open>Names[0]\<close> and \<open>names\<close> the rest (the front-end never builds a value
    specification without a name).
  A documentation comment group is kept as its text.
\<close>

text \<open>\<^verbatim>\<open>Expr.Pos()\<close> as \<^verbatim>\<open>go/ast\<close> defines it for each node class.\<close>

fun Expr_Pos :: "Expr \<Rightarrow> Pos" where
  "Expr_Pos (IdentE i) = NamePos i"
| "Expr_Pos (StarExpr p x) = p"
| "Expr_Pos (SelectorExpr x sel) = Expr_Pos x"
| "Expr_Pos (ChanType p v) = p"
| "Expr_Pos (ArrayType p l e) = p"
| "Expr_Pos (MapType p k v) = p"
| "Expr_Pos (InterfaceType p ms) = p"
| "Expr_Pos (StructType p fs) = p"
| "Expr_Pos (FuncTypeE p ps rs) = p"
| "Expr_Pos (CompositeLit None lb es) = lb"
| "Expr_Pos (CompositeLit (Some t) lb es) = Expr_Pos t"
| "Expr_Pos (FuncLit p ps rs b) = p"
| "Expr_Pos (OtherExpr p es) = p"

text \<open>
  \<^verbatim>\<open>getElem\<close> (inspect.go): the loop strips every leading \<^verbatim>\<open>*ast.StarExpr\<close>.
\<close>

fun getElem :: "Expr \<Rightarrow> Expr" where
  "getElem (StarExpr p x) = getElem x"
| "getElem e = e"

section \<open>Strings\<close>

text \<open>\<^verbatim>\<open>strings.Contains(name, ".")\<close>.\<close>

definition contains_dot :: "string \<Rightarrow> bool" where
  "contains_dot name = (CHR ''.'' \<in> set name)"

text \<open>\<^verbatim>\<open>strings.TrimLeft(name, "*")\<close>: every leading \<^verbatim>\<open>*\<close> is removed.\<close>

definition TrimLeft_star :: "string \<Rightarrow> string" where
  "TrimLeft_star name = dropWhile (\<lambda>c. c = CHR ''*'') name"

text \<open>
  \<^verbatim>\<open>strings.SplitN(name, ".", 2)\<close>: one element when the name has no dot, otherwise
  the text before the first dot and the text after it.
\<close>

definition SplitN_dot2 :: "string \<Rightarrow> string list" where
  "SplitN_dot2 name =
     (if contains_dot name
      then [takeWhile (\<lambda>c. c \<noteq> CHR ''.'') name, tl (dropWhile (\<lambda>c. c \<noteq> CHR ''.'') name)]
      else [name])"

section \<open>The type entity model\<close>

text \<open>
  \<^verbatim>\<open>FuncField\<close> is built field by field in \<^verbatim>\<open>expandFuncFields\<close>: a name (empty for an
  anonymous parameter) and the rendered text of the type.
\<close>

record FuncField =
  ff_Name :: string
  TypeName :: string

text \<open>
  Modelled from the spec: the declarations of the entity types (\<^verbatim>\<open>FuncType\<close>, \<^verbatim>\<open>TypeNode\<close>
  and its variants, \<^verbatim>\<open>File\<close>, \<^verbatim>\<open>Package\<close>, \<^verbatim>\<open>Module\<close>, \<^verbatim>\<open>Import\<close>) are in files of the
  repository other than \<^verbatim>\<open>inspect.go\<close>. The records below hold the attributes the spec
  lists in its data model and the fields \<^verbatim>\<open>inspect.go\<close> reads and writes.

  A Func entity: optional name, documentation, its position (the position of the function
  literal it wraps, which is the position of its \<^verbatim>\<open>func\<close> type), the receiver field if it
  is a method, parameters, results and the body (opaque).
\<close>

record FuncType =
  fn_name :: "string option"
  fn_doc :: "string option"
  fn_pos :: Pos
  fn_recv :: "FuncField option"
  fn_params :: "FuncField list"
  fn_results :: "FuncField list"
  fn_body :: "Stmt list"

text \<open>
  Modelled from the spec: the variants of a non-function Type entity. A Struct carries the
  syntax of its field list (normalised in place by \<^verbatim>\<open>setFields\<close>); the other variants carry
  the element or underlying type as syntax.
\<close>

datatype TypeBody =
    StructBody FieldList
  | AliasBody Expr
  | BasicBody Expr
  | ChanBody Expr
  | ListBody Expr
  | MapBody Expr Expr
  | InterfaceBody FieldList

text \<open>
  Modelled from the spec: the common attributes of a Type entity (optional declared name,
  documentation, the definition-kind sentinel \<open>tn_assign\<close>, position, the ordered list of
  bound methods) and its variant.
\<close>

record TypeNode =
  tn_name :: "string option"
  tn_doc :: "string option"
  tn_assign :: Pos
  tn_pos :: Pos
  tn_body :: TypeBody
  tn_methods :: "FuncType list"

text \<open>
  Modelled from the spec: \<^verbatim>\<open>TypeNode.Name()\<close> returns the declared name; an entity without
  one (an anonymous literal) has the empty name.
\<close>

definition TypeNode_Name :: "TypeNode \<Rightarrow> string" where
  "TypeNode_Name n = (case tn_name n of None \<Rightarrow> [] | Some s \<Rightarrow> s)"

text \<open>
  Modelled from the spec: \<^verbatim>\<open>FuncNode.Recv()\<close> returns the receiver field and whether there
  is one.
\<close>

definition Recv :: "FuncType \<Rightarrow> FuncField option" where
  "Recv m = fn_recv m"

text \<open>
  Type entities are reached through pointers: the tables of a file hold references, and
  the binder mutates the entity a lookup returned. The store maps an address to the entity
  it holds; \<open>nxt\<close> is the next unused address.
\<close>

type_synonym addr = nat

record Store =
  cells :: "addr \<Rightarrow> TypeNode"
  nxt :: addr

definition alloc :: "TypeNode \<Rightarrow> Store \<Rightarrow> addr \<times> Store" where
  "alloc n h = (nxt h, h\<lparr>cells := (cells h)(nxt h := n), nxt := Suc (nxt h)\<rparr>)"

text \<open>
  Modelled from the spec: \<^verbatim>\<open>addMethod\<close> appends the method to the entity's method list
  (binding is additive, it never removes or replaces).
\<close>

definition addMethod :: "addr \<Rightarrow> FuncType \<Rightarrow> Store \<Rightarrow> Store" where
  "addMethod a m h =
     h\<lparr>cells := (cells h)(a := (cells h a)\<lparr>tn_methods := tn_methods (cells h a) @ [m]\<rparr>)\<rparr>"

text \<open>Modelled from the spec: an import record, its local name and its path.\<close>

record Import =
  imp_Name :: string
  imp_Path :: string

text \<open>
  Modelled from the spec: a file owns its syntax tree, the name of its package, its import
  table, the function table and the table of the other types, both keyed by position. A Go
  map is kept as an association list with distinct keys; the order of the list is the
  order in which a \<^verbatim>\<open>range\<close> loop visits the map, which Go leaves unspecified, so a
  statement about every table covers every order of iteration.
\<close>

record File =
  file_ast :: "Decl list"
  PkgName :: string
  Imports :: "Import list"
  Funcs :: "(Pos \<times> FuncType) list"
  Types :: "(Pos \<times> addr) list"

text \<open>
  Modelled from the spec: a package owns its files (listed in the order a \<^verbatim>\<open>range\<close> loop
  over \<^verbatim>\<open>p.Files\<close> visits them); a module maps a package name to the package.
\<close>

record Package =
  Files :: "File list"

type_synonym Module = "(string \<times> Package) list"

text \<open>
  The back-references \<^verbatim>\<open>f.pkg\<close> and \<^verbatim>\<open>f.pkg.module\<close> are passed beside the file:
  \<open>NoPackage\<close> is \<^verbatim>\<open>f.pkg == nil\<close> (a standalone parse), \<open>InPackage p None\<close> is a package
  with \<^verbatim>\<open>module == nil\<close>.
\<close>

datatype Owner = NoPackage | InPackage Package "Module option"

text \<open>A Go map store \<^verbatim>\<open>m[k] = v\<close>: the entry of an existing key is replaced.\<close>

fun map_store :: "'k \<Rightarrow> 'v \<Rightarrow> ('k \<times> 'v) list \<Rightarrow> ('k \<times> 'v) list" where
  "map_store k v [] = [(k, v)]"
| "map_store k v ((k', v') # kvs) =
     (if k = k' then (k, v) # kvs else (k', v') # map_store k v kvs)"

section \<open>The scope resolver\<close>

text \<open>
  \<^verbatim>\<open>File.LookupImports\<close>: the imports whose name is the given one, in table order, and
  whether there is any.
\<close>

fun LookupImports_loop :: "Import list \<Rightarrow> string \<Rightarrow> Import list \<times> bool \<Rightarrow> Import list \<times> bool" where
  "LookupImports_loop [] currPkgName acc = acc"
| "LookupImports_loop (imp # imps) currPkgName (imports, found) =
     (if imp_Name imp = currPkgName
      then LookupImports_loop imps currPkgName (imports @ [imp], True)
      else LookupImports_loop imps currPkgName (imports, found))"

definition LookupImports :: "File \<Rightarrow> string \<Rightarrow> Import list \<times> bool" where
  "LookupImports f currPkgName = LookupImports_loop (Imports f) currPkgName ([], False)"

text \<open>
  \<^verbatim>\<open>File.LookupPackages\<close>. After a successful \<^verbatim>\<open>LookupImports\<close> the result \<^verbatim>\<open>found\<close>
  is already true and the loop can only set it again, so it stays true when the module
  has no package under the name.
\<close>

fun LookupPackages_loop :: "Module \<Rightarrow> Import list \<Rightarrow> Package list \<times> bool \<Rightarrow> Package list \<times> bool" where
  "LookupPackages_loop md [] acc = acc"
| "LookupPackages_loop md (imp # imps) (pkgs, found) =
     (case map_of md (imp_Name imp) of
        Some p \<Rightarrow> LookupPackages_loop md imps (pkgs @ [p], True)
      | None \<Rightarrow> LookupPackages_loop md imps (pkgs, found))"

definition LookupPackages :: "Owner \<Rightarrow> File \<Rightarrow> string \<Rightarrow> Package list \<times> bool" where
  "LookupPackages pkg f currPkgName =
     (case pkg of
        NoPackage \<Rightarrow> ([], False)
      | InPackage p None \<Rightarrow> ([], False)
      | InPackage p (Some md) \<Rightarrow>
          (case LookupImports f currPkgName of
             (imps, found) \<Rightarrow>
               if \<not> found then ([], False)
               else LookupPackages_loop md imps ([], found)))"

text \<open>
  \<^verbatim>\<open>File.LookupTypeInFile\<close>: the first entity of the table, in iteration order, whose
  name is the given one. \<open>None\<close> is the result \<^verbatim>\<open>(nil, false)\<close>.
\<close>

fun LookupTypeInFile_loop :: "Store \<Rightarrow> (Pos \<times> addr) list \<Rightarrow> string \<Rightarrow> addr option" where
  "LookupTypeInFile_loop h [] name = None"
| "LookupTypeInFile_loop h ((k, n) # ns) name =
     (if name = TypeNode_Name (cells h n) then Some n
      else LookupTypeInFile_loop h ns name)"

definition LookupTypeInFile :: "Store \<Rightarrow> File \<Rightarrow> string \<Rightarrow> addr option" where
  "LookupTypeInFile h f name = LookupTypeInFile_loop h (Types f) name"

text \<open>The loop over the files of a package, shared by the two lookups below.\<close>

fun LookupTypeInFiles :: "Store \<Rightarrow> File list \<Rightarrow> string \<Rightarrow> addr option" where
  "LookupTypeInFiles h [] name = None"
| "LookupTypeInFiles h (v # vs) name =
     (case LookupTypeInFile h v name of
        Some t \<Rightarrow> Some t
      | None \<Rightarrow> LookupTypeInFiles h vs name)"

text \<open>\<^verbatim>\<open>File.LookupTypeInPackage\<close>.\<close>

definition LookupTypeInPackage :: "Store \<Rightarrow> Owner \<Rightarrow> File \<Rightarrow> string \<Rightarrow> addr option" where
  "LookupTypeInPackage h pkg f name =
     (if contains_dot name then None
      else
        (let name' = TrimLeft_star name in
         case pkg of
           NoPackage \<Rightarrow> LookupTypeInFile h f name'
         | InPackage p m \<Rightarrow> LookupTypeInFiles h (Files p) name'))"

text \<open>
  \<^verbatim>\<open>File.LookupTypeInModule\<close>. The nested loop runs over the packages and, in each,
  over its files; the first match returns.
\<close>

fun LookupTypeInPackages :: "Store \<Rightarrow> Package list \<Rightarrow> string \<Rightarrow> addr option" where
  "LookupTypeInPackages h [] name = None"
| "LookupTypeInPackages h (p # ps) name =
     (case LookupTypeInFiles h (Files p) name of
        Some t \<Rightarrow> Some t
      | None \<Rightarrow> LookupTypeInPackages h ps name)"

definition LookupTypeInModule :: "Store \<Rightarrow> Owner \<Rightarrow> File \<Rightarrow> string \<Rightarrow> addr option" where
  "LookupTypeInModule h pkg f name =
     (case LookupTypeInPackage h pkg f name of
        Some t \<Rightarrow> Some t
      | None \<Rightarrow>
          (let name' = TrimLeft_star name;
               a = SplitN_dot2 name';
               a' = (if length a = 1 then [''.'', name'] else a)
           in case LookupPackages pkg f (hd a') of
                (pkgs, ok) \<Rightarrow>
                  if \<not> ok then None
                  else LookupTypeInPackages h pkgs (hd (tl a'))))"

section \<open>The rendering back-end\<close>

text \<open>
  \<^verbatim>\<open>format.Node\<close> of the Go library is the external renderer: it writes the text of a
  node or fails with an error. It is a parameter of the model.
\<close>

datatype error = RenderError string

type_synonym Renderer = "Expr \<Rightarrow> error + string"

text \<open>
  \<^verbatim>\<open>File.Format\<close> returns the pair \<^verbatim>\<open>(code, err)\<close>: on failure \<^verbatim>\<open>code\<close> still has its
  zero value, the empty string.
\<close>

definition Format :: "Renderer \<Rightarrow> Expr \<Rightarrow> string \<times> error option" where
  "Format render node =
     (case render node of
        Inl err \<Rightarrow> ([], Some err)
      | Inr dst \<Rightarrow> (dst, None))"

text \<open>\<^verbatim>\<open>File.TryFormat\<close>, with the variadic \<^verbatim>\<open>defaultValue\<close> as a list.\<close>

definition TryFormat :: "Renderer \<Rightarrow> Expr \<Rightarrow> string list \<Rightarrow> string" where
  "TryFormat render node defaultValue =
     (case Format render node of
        (code, err) \<Rightarrow>
          if err \<noteq> None \<and> length defaultValue > 0 then hd defaultValue else code)"

section \<open>The field normaliser\<close>

text \<open>\<^verbatim>\<open>cloneBasicLit\<close> copies kind and value; the position of the copy is the zero value.\<close>

definition cloneBasicLit :: "BasicLit option \<Rightarrow> BasicLit option" where
  "cloneBasicLit b =
     (case b of
        None \<Rightarrow> None
      | Some l \<Rightarrow> Some (BasicLit NoPos (Kind l) (Value l)))"

text \<open>
  \<^verbatim>\<open>expandFields\<close>. The loop appends the group \<^verbatim>\<open>g\<close> itself, then one new field for
  each name after the first, and cuts \<^verbatim>\<open>g.Names\<close> to its first name; the list holds a
  pointer to \<^verbatim>\<open>g\<close>, so the appended group is the cut one.
\<close>

fun expandFields_loop :: "Field list \<Rightarrow> Field list" where
  "expandFields_loop [] = []"
| "expandFields_loop (g # gs) =
     (if length (Names g) > 1
      then Field (take 1 (Names g)) (Type g) (Tag g)
             # map (\<lambda>name. Field [name] (Type g) (cloneBasicLit (Tag g))) (tl (Names g))
      else [g])
     @ expandFields_loop gs"

definition expandFields :: "FieldList \<Rightarrow> FieldList" where
  "expandFields fieldList =
     (case fieldList of
        NilFieldList \<Rightarrow> NilFieldList
      | FieldList l \<Rightarrow> FieldList (expandFields_loop l))"

text \<open>\<^verbatim>\<open>File.expandFuncFields\<close>.\<close>

fun expandFuncFields_loop :: "Renderer \<Rightarrow> Field list \<Rightarrow> FuncField list" where
  "expandFuncFields_loop render [] = []"
| "expandFuncFields_loop render (g # gs) =
     (let typeName = TryFormat render (Type g) [] in
      (if length (Names g) = 0
       then [\<lparr>ff_Name = [], TypeName = typeName\<rparr>]
       else map (\<lambda>name. \<lparr>ff_Name = Name name, TypeName = typeName\<rparr>) (Names g))
      @ expandFuncFields_loop render gs)"

definition expandFuncFields :: "Renderer \<Rightarrow> FieldList \<Rightarrow> FuncField list" where
  "expandFuncFields render fieldList =
     (case fieldList of
        NilFieldList \<Rightarrow> []
      | FieldList l \<Rightarrow> expandFuncFields_loop render l)"

section \<open>Constructors of the entities\<close>

text \<open>
  Modelled from the spec: \<^verbatim>\<open>File.newFuncType\<close> and the \<^verbatim>\<open>new...Type\<close> constructors of the
  Type entities are defined outside \<^verbatim>\<open>inspect.go\<close>. Each builds the entity of its variant
  from the arguments of the call (name, documentation, definition-kind sentinel, syntax
  node), with no bound method, and takes the position of the syntax node as its identity.
\<close>

definition newFuncType ::
  "string option \<Rightarrow> string option \<Rightarrow> Pos \<Rightarrow> Stmt list \<Rightarrow> FuncField option \<Rightarrow>
   FuncField list \<Rightarrow> FuncField list \<Rightarrow> FuncType" where
  "newFuncType namePtr doc funcPos body recv params results =
     \<lparr>fn_name = namePtr, fn_doc = doc, fn_pos = funcPos, fn_recv = recv,
      fn_params = params, fn_results = results, fn_body = body\<rparr>"

definition newTypeNode :: "string option \<Rightarrow> string option \<Rightarrow> Pos \<Rightarrow> Pos \<Rightarrow> TypeBody \<Rightarrow> TypeNode" where
  "newTypeNode namePtr doc assign p b =
     \<lparr>tn_name = namePtr, tn_doc = doc, tn_assign = assign, tn_pos = p, tn_body = b,
      tn_methods = []\<rparr>"

definition newStructType :: "string option \<Rightarrow> string option \<Rightarrow> Pos \<Rightarrow> Pos \<Rightarrow> FieldList \<Rightarrow> TypeNode" where
  "newStructType namePtr doc assign p fl = newTypeNode namePtr doc assign p (StructBody fl)"

definition newAliasType :: "string option \<Rightarrow> string option \<Rightarrow> Pos \<Rightarrow> Expr \<Rightarrow> TypeNode" where
  "newAliasType namePtr doc assign x = newTypeNode namePtr doc assign (Expr_Pos x) (AliasBody x)"

text \<open>
  Modelled from the spec: a plain identifier gives an Alias when the declaration is the
  aliasing form (\<^verbatim>\<open>type A = B\<close>, a valid \<^verbatim>\<open>Assign\<close> position) and a Basic when it defines
  a new type.
\<close>

definition newBasicOrAliasType :: "string option \<Rightarrow> string option \<Rightarrow> Pos \<Rightarrow> Ident \<Rightarrow> TypeNode" where
  "newBasicOrAliasType namePtr doc assign x =
     newTypeNode namePtr doc assign (NamePos x)
       (if assign \<noteq> NoPos then AliasBody (IdentE x) else BasicBody (IdentE x))"

definition newChanType :: "string option \<Rightarrow> string option \<Rightarrow> Pos \<Rightarrow> Pos \<Rightarrow> Expr \<Rightarrow> TypeNode" where
  "newChanType namePtr doc assign p v = newTypeNode namePtr doc assign p (ChanBody v)"

definition newListType :: "string option \<Rightarrow> string option \<Rightarrow> Pos \<Rightarrow> Pos \<Rightarrow> Expr \<Rightarrow> TypeNode" where
  "newListType namePtr doc assign p elt = newTypeNode namePtr doc assign p (ListBody elt)"

definition newMapType :: "string option \<Rightarrow> string option \<Rightarrow> Pos \<Rightarrow> Pos \<Rightarrow> Expr \<Rightarrow> Expr \<Rightarrow> TypeNode" where
  "newMapType namePtr doc assign p k v = newTypeNode namePtr doc assign p (MapBody k v)"

definition newInterfaceType :: "string option \<Rightarrow> string option \<Rightarrow> Pos \<Rightarrow> Pos \<Rightarrow> FieldList \<Rightarrow> TypeNode" where
  "newInterfaceType namePtr doc assign p ms = newTypeNode namePtr doc assign p (InterfaceBody ms)"

text \<open>
  Modelled from the spec: \<^verbatim>\<open>StructType.setFields\<close> runs the field normaliser on the raw
  field groups of the struct.
\<close>

definition setFields :: "TypeNode \<Rightarrow> TypeNode" where
  "setFields s =
     (case tn_body s of
        StructBody fl \<Rightarrow> s\<lparr>tn_body := StructBody (expandFields fl)\<rparr>
      | _ \<Rightarrow> s)"

text \<open>The fields of a Struct entity, one syntax field per entry.\<close>

definition struct_fields :: "TypeNode \<Rightarrow> Field list option" where
  "struct_fields s =
     (case tn_body s of
        StructBody NilFieldList \<Rightarrow> Some []
      | StructBody (FieldList l) \<Rightarrow> Some l
      | _ \<Rightarrow> None)"

section \<open>Traversal\<close>

text \<open>
  \<^verbatim>\<open>ast.Inspect\<close> calls its function on every node of the tree in depth-first order and
  descends while the function returns true, which every collector does. The collectors
  act on expression and declaration nodes only, so the traversal is the list of those
  nodes in the order \<^verbatim>\<open>ast.Walk\<close> reaches them.
\<close>

datatype Node = ExprNode Expr | DeclNode Decl

fun Inspect_Expr :: "Expr \<Rightarrow> Node list"
  and Inspect_FieldList :: "FieldList \<Rightarrow> Node list"
  and Inspect_Field :: "Field \<Rightarrow> Node list"
  and Inspect_Stmt :: "Stmt \<Rightarrow> Node list"
  and Inspect_Decl :: "Decl \<Rightarrow> Node list"
  and Inspect_Spec :: "Spec \<Rightarrow> Node list" where
  "Inspect_Expr (IdentE i) = [ExprNode (IdentE i)]"
| "Inspect_Expr (StarExpr p x) = ExprNode (StarExpr p x) # Inspect_Expr x"
| "Inspect_Expr (SelectorExpr x sel) =
     ExprNode (SelectorExpr x sel) # Inspect_Expr x @ [ExprNode (IdentE sel)]"
| "Inspect_Expr (ChanType p v) = ExprNode (ChanType p v) # Inspect_Expr v"
| "Inspect_Expr (ArrayType p l e) =
     ExprNode (ArrayType p l e)
       # (case l of None \<Rightarrow> [] | Some n \<Rightarrow> Inspect_Expr n) @ Inspect_Expr e"
| "Inspect_Expr (MapType p k v) = ExprNode (MapType p k v) # Inspect_Expr k @ Inspect_Expr v"
| "Inspect_Expr (InterfaceType p ms) = ExprNode (InterfaceType p ms) # Inspect_FieldList ms"
| "Inspect_Expr (StructType p fs) = ExprNode (StructType p fs) # Inspect_FieldList fs"
| "Inspect_Expr (FuncTypeE p ps rs) =
     ExprNode (FuncTypeE p ps rs) # Inspect_FieldList ps @ Inspect_FieldList rs"
| "Inspect_Expr (CompositeLit t lb es) =
     ExprNode (CompositeLit t lb es)
       # (case t of None \<Rightarrow> [] | Some ty \<Rightarrow> Inspect_Expr ty) @ concat (map Inspect_Expr es)"
| "Inspect_Expr (FuncLit p ps rs b) =
     ExprNode (FuncLit p ps rs b)
       # ExprNode (FuncTypeE p ps rs) # Inspect_FieldList ps @ Inspect_FieldList rs
       @ concat (map Inspect_Stmt b)"
| "Inspect_Expr (OtherExpr p es) = ExprNode (OtherExpr p es) # concat (map Inspect_Expr es)"
| "Inspect_FieldList NilFieldList = []"
| "Inspect_FieldList (FieldList l) = concat (map Inspect_Field l)"
| "Inspect_Field (Field ns t tg) = map (\<lambda>i. ExprNode (IdentE i)) ns @ Inspect_Expr t"
| "Inspect_Stmt (ExprStmt x) = Inspect_Expr x"
| "Inspect_Stmt (DeclStmt d) = Inspect_Decl d"
| "Inspect_Stmt (OtherStmt es ss) = concat (map Inspect_Expr es) @ concat (map Inspect_Stmt ss)"
| "Inspect_Decl (GenDecl doc specs) =
     DeclNode (GenDecl doc specs) # concat (map Inspect_Spec specs)"
| "Inspect_Decl (FuncDecl doc recv name p ps rs b) =
     DeclNode (FuncDecl doc recv name p ps rs b)
       # Inspect_FieldList recv @ [ExprNode (IdentE name), ExprNode (FuncTypeE p ps rs)]
       @ Inspect_FieldList ps @ Inspect_FieldList rs @ concat (map Inspect_Stmt b)"
| "Inspect_Spec (TypeSpec doc name assign t) =
     ExprNode (IdentE name) # (case t of None \<Rightarrow> [] | Some ty \<Rightarrow> Inspect_Expr ty)"
| "Inspect_Spec (ValueSpec doc name names t vs) =
     map (\<lambda>i. ExprNode (IdentE i)) (name # names)
       @ (case t of None \<Rightarrow> [] | Some ty \<Rightarrow> Inspect_Expr ty) @ concat (map Inspect_Expr vs)"
| "Inspect_Spec (ImportSpec doc path) = []"

definition Inspect :: "File \<Rightarrow> Node list" where
  "Inspect f = concat (map Inspect_Decl (file_ast f))"

section \<open>The declaration collector\<close>

text \<open>
  \<^verbatim>\<open>File.collectFuncs\<close> (the current one, which fills \<^verbatim>\<open>f.Funcs\<close>). A function literal is
  registered without name, receiver, parameters or results; a function declaration with
  the first field of its expanded receiver list, if there is one.
\<close>

fun collectFuncs_step :: "Renderer \<Rightarrow> Node \<Rightarrow> (Pos \<times> FuncType) list \<Rightarrow> (Pos \<times> FuncType) list" where
  "collectFuncs_step render (ExprNode (FuncLit p ps rs b)) funcs =
     (let t = newFuncType None None p b None [] [] in map_store (fn_pos t) t funcs)"
| "collectFuncs_step render (DeclNode (FuncDecl doc recvList name p ps rs b)) funcs =
     (let recvs = expandFuncFields render recvList;
          recv = (if length recvs > 0 then Some (hd recvs) else None);
          t = newFuncType (Some (Name name)) doc p b recv
                (expandFuncFields render ps) (expandFuncFields render rs)
      in map_store (fn_pos t) t funcs)"
| "collectFuncs_step render n funcs = funcs"

definition collectFuncs :: "Renderer \<Rightarrow> File \<Rightarrow> File" where
  "collectFuncs render f = f\<lparr>Funcs := fold (collectFuncs_step render) (Inspect f) (Funcs f)\<rparr>"

text \<open>
  The type table of the file under construction and the store of the entities it refers
  to. \<^verbatim>\<open>f.Types[t.Pos()] = t\<close> allocates the new entity and stores its reference under
  its position.
\<close>

type_synonym TypeTable = "(Pos \<times> addr) list \<times> Store"

definition register :: "TypeNode \<Rightarrow> TypeTable \<Rightarrow> TypeTable" where
  "register t tb =
     (case tb of
        (types, h) \<Rightarrow>
          (case alloc t h of
             (a, h') \<Rightarrow> (map_store (tn_pos t) a types, h')))"

text \<open>
  \<^verbatim>\<open>File.collectTypeSpecs\<close>: on every \<^verbatim>\<open>GenDecl\<close> the variable \<^verbatim>\<open>doc\<close> starts as the
  documentation of the declaration and is overwritten by each type specification that has
  its own; it is declared outside the loop, so it keeps that value for the specifications
  that follow.
\<close>

fun collectTypeSpecs_loop ::
  "(Spec \<Rightarrow> string option \<Rightarrow> 's \<Rightarrow> 's) \<Rightarrow> Spec list \<Rightarrow> string option \<Rightarrow> 's \<Rightarrow> 's" where
  "collectTypeSpecs_loop fn [] doc s = s"
| "collectTypeSpecs_loop fn (TypeSpec tdoc name assign t # specs) doc s =
     (let doc' = (if tdoc \<noteq> None then tdoc else doc)
      in collectTypeSpecs_loop fn specs doc' (fn (TypeSpec tdoc name assign t) doc' s))"
| "collectTypeSpecs_loop fn (spec # specs) doc s = collectTypeSpecs_loop fn specs doc s"

fun collectTypeSpecs_step :: "(Spec \<Rightarrow> string option \<Rightarrow> 's \<Rightarrow> 's) \<Rightarrow> Node \<Rightarrow> 's \<Rightarrow> 's" where
  "collectTypeSpecs_step fn (DeclNode (GenDecl doc specs)) s = collectTypeSpecs_loop fn specs doc s"
| "collectTypeSpecs_step fn n s = s"

definition collectTypeSpecs :: "(Spec \<Rightarrow> string option \<Rightarrow> 's \<Rightarrow> 's) \<Rightarrow> File \<Rightarrow> 's \<Rightarrow> 's" where
  "collectTypeSpecs fn f s = fold (collectTypeSpecs_step fn) (Inspect f) s"

text \<open>
  The type switch of \<^verbatim>\<open>File.collectTypesOtherThanStruct\<close> on \<^verbatim>\<open>getElem(node.Type)\<close>:
  the entity it builds, or \<open>None\<close> where the \<^verbatim>\<open>default\<close> branch returns. The argument is
  the expression \<^verbatim>\<open>getElem\<close> returned.
\<close>

fun collectTypesOtherThanStruct_switch ::
  "string option \<Rightarrow> string option \<Rightarrow> Pos \<Rightarrow> Expr \<Rightarrow> TypeNode option" where
  "collectTypesOtherThanStruct_switch namePtr doc assign (SelectorExpr x sel) =
     Some (newAliasType namePtr doc assign (SelectorExpr x sel))"
| "collectTypesOtherThanStruct_switch namePtr doc assign (IdentE x) =
     Some (newBasicOrAliasType namePtr doc assign x)"
| "collectTypesOtherThanStruct_switch namePtr doc assign (ChanType p v) =
     Some (newChanType namePtr doc assign p v)"
| "collectTypesOtherThanStruct_switch namePtr doc assign (ArrayType p l e) =
     Some (newListType namePtr doc assign p e)"
| "collectTypesOtherThanStruct_switch namePtr doc assign (MapType p k v) =
     Some (newMapType namePtr doc assign p k v)"
| "collectTypesOtherThanStruct_switch namePtr doc assign (InterfaceType p ms) =
     Some (newInterfaceType namePtr doc assign p ms)"
| "collectTypesOtherThanStruct_switch namePtr doc assign e = None"

text \<open>
  The function \<^verbatim>\<open>File.collectTypesOtherThanStruct\<close> passes to \<^verbatim>\<open>collectTypeSpecs\<close>. A
  specification without a type has \<^verbatim>\<open>node.Type == nil\<close>: \<^verbatim>\<open>getElem\<close> returns nil and the
  switch takes its \<^verbatim>\<open>default\<close> branch.
\<close>

fun collectTypesOtherThanStruct_fn :: "Spec \<Rightarrow> string option \<Rightarrow> TypeTable \<Rightarrow> TypeTable" where
  "collectTypesOtherThanStruct_fn (TypeSpec tdoc name assign (Some ty)) doc tb =
     (case collectTypesOtherThanStruct_switch (Some (Name name)) doc assign (getElem ty) of
        None \<Rightarrow> tb
      | Some t \<Rightarrow> register t tb)"
| "collectTypesOtherThanStruct_fn spec doc tb = tb"

definition collectTypesOtherThanStruct :: "File \<Rightarrow> TypeTable \<Rightarrow> TypeTable" where
  "collectTypesOtherThanStruct f tb = collectTypeSpecs collectTypesOtherThanStruct_fn f tb"

text \<open>
  \<^verbatim>\<open>File.collectStructs\<close> (the current one). In the loop over the specifications the
  type assertion \<^verbatim>\<open>t.(*ast.StructType)\<close> is made on the type as written, without
  \<^verbatim>\<open>getElem\<close>.
\<close>

fun collectStructs_spec :: "string option \<Rightarrow> Spec \<Rightarrow> TypeTable \<Rightarrow> TypeTable" where
  "collectStructs_spec xdoc (TypeSpec ydoc name assign None) tb = tb"
| "collectStructs_spec xdoc (TypeSpec ydoc name assign (Some (StructType p fl))) tb =
     register (newStructType (Some (Name name)) (if ydoc \<noteq> None then ydoc else xdoc) assign p fl) tb"
| "collectStructs_spec xdoc (ValueSpec ydoc name names (Some (StructType p fl)) vs) tb =
     register (newStructType (Some (Name name)) (if ydoc \<noteq> None then ydoc else xdoc) (- 1) p fl) tb"
| "collectStructs_spec xdoc spec tb = tb"

fun collectStructs_step :: "Node \<Rightarrow> TypeTable \<Rightarrow> TypeTable" where
  "collectStructs_step (ExprNode (CompositeLit (Some (StructType p fl)) lb es)) tb =
     register (newStructType None None (- 1) p fl) tb"
| "collectStructs_step (DeclNode (GenDecl doc specs)) tb = fold (collectStructs_spec doc) specs tb"
| "collectStructs_step n tb = tb"

definition collectStructs :: "File \<Rightarrow> TypeTable \<Rightarrow> TypeTable" where
  "collectStructs f tb = fold collectStructs_step (Inspect f) tb"

text \<open>\<^verbatim>\<open>File.setStructFields\<close>: every Struct entity of the table normalises its fields.\<close>

fun setStructFields_step :: "Pos \<times> addr \<Rightarrow> Store \<Rightarrow> Store" where
  "setStructFields_step (k, t) h =
     (case tn_body (cells h t) of
        StructBody fl \<Rightarrow> h\<lparr>cells := (cells h)(t := setFields (cells h t))\<rparr>
      | _ \<Rightarrow> h)"

definition setStructFields :: "(Pos \<times> addr) list \<Rightarrow> Store \<Rightarrow> Store" where
  "setStructFields types h = fold setStructFields_step types h"

section \<open>The method binder\<close>

text \<open>
  \<^verbatim>\<open>File.bindMethods\<close>: for every function of the file's table that has a receiver, the
  receiver's type name is looked up in package scope, and the function is added to the
  methods of the entity found.
\<close>

fun bindMethods_step :: "Owner \<Rightarrow> File \<Rightarrow> Pos \<times> FuncType \<Rightarrow> Store \<Rightarrow> Store" where
  "bindMethods_step pkg f (k, m) h =
     (case Recv m of
        None \<Rightarrow> h
      | Some recv \<Rightarrow>
          (case LookupTypeInPackage h pkg f (TypeName recv) of
             None \<Rightarrow> h
           | Some t \<Rightarrow> addMethod t m h))"

definition bindMethods :: "Owner \<Rightarrow> File \<Rightarrow> Store \<Rightarrow> Store" where
  "bindMethods pkg f h = fold (bindMethods_step pkg f) (Funcs f) h"

text \<open>
  \<^verbatim>\<open>File.collectNodes\<close>: both tables are made anew, filled, and the methods are bound
  here only when \<^verbatim>\<open>singleParsing\<close> is set.
\<close>

definition File_collectNodes :: "Renderer \<Rightarrow> Owner \<Rightarrow> bool \<Rightarrow> File \<times> Store \<Rightarrow> File \<times> Store" where
  "File_collectNodes render pkg singleParsing fh =
     (case fh of
        (f, h) \<Rightarrow>
          (let f1 = collectFuncs render (f\<lparr>Funcs := []\<rparr>);
               tb1 = collectTypesOtherThanStruct f1 ([], h);
               tb2 = collectStructs f1 tb1;
               f2 = f1\<lparr>Types := fst tb2\<rparr>;
               h2 = setStructFields (fst tb2) (snd tb2)
           in (f2, if singleParsing then bindMethods pkg f2 h2 else h2)))"

text \<open>
  \<^verbatim>\<open>Package.collectNodes\<close>: the first loop collects every file, the second binds the
  methods of every file against the package the first loop left.
\<close>

fun Package_collectNodes_collect ::
  "Renderer \<Rightarrow> Owner \<Rightarrow> File list \<Rightarrow> Store \<Rightarrow> File list \<times> Store" where
  "Package_collectNodes_collect render pkg [] h = ([], h)"
| "Package_collectNodes_collect render pkg (f # fs) h =
     (case File_collectNodes render pkg False (f, h) of
        (f', h') \<Rightarrow>
          (case Package_collectNodes_collect render pkg fs h' of
             (fs', h'') \<Rightarrow> (f' # fs', h'')))"

definition Package_collectNodes ::
  "Renderer \<Rightarrow> Module option \<Rightarrow> Package \<times> Store \<Rightarrow> Package \<times> Store" where
  "Package_collectNodes render md ph =
     (case ph of
        (p, h) \<Rightarrow>
          (case Package_collectNodes_collect render (InPackage p md) (Files p) h of
             (fs, h1) \<Rightarrow>
               (let p' = p\<lparr>Files := fs\<rparr>
                in (p', fold (bindMethods (InPackage p' md)) fs h1))))"

text \<open>
  The receiver position of the earlier \<^verbatim>\<open>File.collectMethods\<close>:
  \<^verbatim>\<open>x.Recv.List[0].Type.(*ast.StarExpr).X.(*ast.Ident).Obj.Pos()\<close>. Both type assertions
  are of the panicking form, and \<^verbatim>\<open>Obj\<close> is nil for an unresolved identifier.
\<close>

datatype panic = TypeAssertionPanic | NilPointerPanic

fun collectMethods_recvPos :: "Expr \<Rightarrow> panic + Pos" where
  "collectMethods_recvPos (StarExpr p (IdentE i)) =
     (case Obj i of None \<Rightarrow> Inl NilPointerPanic | Some d \<Rightarrow> Inr d)"
| "collectMethods_recvPos e = Inl TypeAssertionPanic"

section \<open>Notions used to state the properties\<close>

text \<open>The origin file has no module: it is standalone, or its package has none.\<close>

fun no_module :: "Owner \<Rightarrow> bool" where
  "no_module NoPackage = True"
| "no_module (InPackage p None) = True"
| "no_module (InPackage p (Some md)) = False"

text \<open>
  The packages an alias denotes for a file of a module, in the spec's words: the entries of
  the file's import table under the alias, each resolved in the module.
\<close>

definition resolve_alias :: "Module \<Rightarrow> File \<Rightarrow> string \<Rightarrow> Package list" where
  "resolve_alias md f alias =
     concat (map (\<lambda>imp. case map_of md (imp_Name imp) of None \<Rightarrow> [] | Some p \<Rightarrow> [p])
                 (filter (\<lambda>imp. imp_Name imp = alias) (Imports f)))"

text \<open>The alias and the identifier of a qualified name: the text around its first dot.\<close>

definition alias_of :: "string \<Rightarrow> string" where
  "alias_of name = takeWhile (\<lambda>c. c \<noteq> CHR ''.'') name"

definition identifier_of :: "string \<Rightarrow> string" where
  "identifier_of name = tl (dropWhile (\<lambda>c. c \<noteq> CHR ''.'') name)"

text \<open>
  The function \<open>m\<close> is bound to the entity at \<open>a\<close> by a binder that runs for file \<open>f\<close> on
  store \<open>h\<close>: it has a receiver, and package-scope lookup of the receiver's type name
  returns \<open>a\<close>.
\<close>

definition binds_to :: "Store \<Rightarrow> Owner \<Rightarrow> File \<Rightarrow> addr \<Rightarrow> FuncType \<Rightarrow> bool" where
  "binds_to h pkg f a m =
     (case Recv m of
        None \<Rightarrow> False
      | Some recv \<Rightarrow> LookupTypeInPackage h pkg f (TypeName recv) = Some a)"

text \<open>
  The result the spec's sentence on rendering failure asks of a caller that renders a node
  with the given fallbacks: the text on success, the first fallback on failure if there is
  one, the error otherwise.
\<close>

definition rendering_failure_spec :: "Renderer \<Rightarrow> Expr \<Rightarrow> string list \<Rightarrow> error + string" where
  "rendering_failure_spec render node defaultValue =
     (case render node of
        Inr code \<Rightarrow> Inr code
      | Inl err \<Rightarrow> (case defaultValue of [] \<Rightarrow> Inl err | d # ds \<Rightarrow> Inr d))"

text \<open>The content of a struct tag: kind and value of the literal, without its position.\<close>

definition tag_text :: "BasicLit option \<Rightarrow> (string \<times> string) option" where
  "tag_text b = map_option (\<lambda>l. (Kind l, Value l)) b"


text \<open>
  The files package-scope lookup searches from a file: the file itself when it has no
  package, the files of its package otherwise.
\<close>

definition scope_files :: "Owner \<Rightarrow> File \<Rightarrow> File list" where
  "scope_files pkg f = (case pkg of NoPackage \<Rightarrow> [f] | InPackage p md \<Rightarrow> Files p)"

text \<open>Some table in the scope of the file holds an entity with the given name.\<close>

definition declared_in_scope :: "Store \<Rightarrow> Owner \<Rightarrow> File \<Rightarrow> string \<Rightarrow> bool" where
  "declared_in_scope h pkg f n =
     (\<exists>g \<in> set (scope_files pkg f). \<exists>a \<in> snd ` set (Types g). TypeNode_Name (cells h a) = n)"

text \<open>
  The receiver of a function resolves from a file: its type text has no dot and, with the
  leading \<^verbatim>\<open>*\<close> stripped, is the name of an entity in scope.
\<close>

definition receiver_resolves :: "Store \<Rightarrow> Owner \<Rightarrow> File \<Rightarrow> FuncType \<Rightarrow> bool" where
  "receiver_resolves h pkg f m =
     (case Recv m of
        None \<Rightarrow> False
      | Some recv \<Rightarrow>
          \<not> contains_dot (TypeName recv)
          \<and> declared_in_scope h pkg f (TrimLeft_star (TypeName recv)))"

text \<open>Two stores give every address the same name: lookups cannot tell them apart.\<close>

definition same_names :: "Store \<Rightarrow> Store \<Rightarrow> bool" where
  "same_names h h' = (\<forall>b. TypeNode_Name (cells h' b) = TypeNode_Name (cells h b))"

text \<open>The position under which \<^verbatim>\<open>collectFuncs\<close> registers a node, if it registers it.\<close>

fun func_node_pos :: "Node \<Rightarrow> Pos option" where
  "func_node_pos (ExprNode (FuncLit p ps rs b)) = Some p"
| "func_node_pos (DeclNode (FuncDecl doc recvList name p ps rs b)) = Some p"
| "func_node_pos n = None"

section \<open>Example inputs\<close>

text \<open>
  A renderer for the examples: it prints the type expressions the examples use and fails
  on every other node.
\<close>

fun example_render :: "Expr \<Rightarrow> error + string" where
  "example_render (IdentE i) = Inr (Name i)"
| "example_render (StarExpr p x) =
     (case example_render x of Inl e \<Rightarrow> Inl e | Inr s \<Rightarrow> Inr (''*'' @ s))"
| "example_render (SelectorExpr x sel) =
     (case example_render x of Inl e \<Rightarrow> Inl e | Inr s \<Rightarrow> Inr (s @ ''.'' @ Name sel))"
| "example_render (ArrayType p None e) =
     (case example_render e of Inl e \<Rightarrow> Inl e | Inr s \<Rightarrow> Inr (''[]'' @ s))"
| "example_render e = Inl (RenderError ''unsupported node'')"

text \<open>An entity to fill the unused cells of a store, and the empty store.\<close>

definition no_entity :: TypeNode where
  "no_entity = newTypeNode None None NoPos NoPos (InterfaceBody NilFieldList)"


text \<open>\<^verbatim>\<open>type Point struct { X, Y int }\<close>, as the only declaration of a file.\<close>

definition point_decl :: Decl where
  "point_decl =
     GenDecl None
       [TypeSpec None (Ident 6 ''Point'' None) NoPos
          (Some (StructType 12
             (FieldList [Field [Ident 21 ''X'' None, Ident 24 ''Y'' None]
                               (IdentE (Ident 26 ''int'' None)) None])))]"

definition point_file :: File where
  "point_file = \<lparr>file_ast = [point_decl], PkgName = ''geo'', Imports = [], Funcs = [], Types = []\<rparr>"

text \<open>\<^verbatim>\<open>func (p *Point) Len() int { }\<close>, in a second file of the package.\<close>

definition len_decl :: Decl where
  "len_decl =
     FuncDecl None
       (FieldList [Field [Ident 107 ''p'' None] (StarExpr 109 (IdentE (Ident 110 ''Point'' None))) None])
       (Ident 117 ''Len'' None) 101 (FieldList [])
       (FieldList [Field [] (IdentE (Ident 123 ''int'' None)) None]) []"

definition len_file :: File where
  "len_file = \<lparr>file_ast = [len_decl], PkgName = ''geo'', Imports = [], Funcs = [], Types = []\<rparr>"

text \<open>The package lists the file of the method before the file of the type.\<close>

definition geo_pkg :: Package where
  "geo_pkg = \<lparr>Files = [len_file, point_file]\<rparr>"

text \<open>\<^verbatim>\<open>func (p Point) Area() int { }\<close>: a value receiver, in the file of the type.\<close>

definition area_decl :: Decl where
  "area_decl =
     FuncDecl None
       (FieldList [Field [Ident 207 ''p'' None] (IdentE (Ident 209 ''Point'' None)) None])
       (Ident 216 ''Area'' None) 201 (FieldList [])
       (FieldList [Field [] (IdentE (Ident 223 ''int'' None)) None]) []"

definition area_file :: File where
  "area_file =
     \<lparr>file_ast = [point_decl, area_decl], PkgName = ''geo'', Imports = [], Funcs = [], Types = []\<rparr>"

text \<open>\<^verbatim>\<open>func (w *util.Widget) Run() { }\<close>: a receiver that is not an identifier.\<close>

definition run_decl :: Decl where
  "run_decl =
     FuncDecl None
       (FieldList [Field [Ident 307 ''w'' None]
          (StarExpr 309 (SelectorExpr (IdentE (Ident 310 ''util'' None)) (Ident 315 ''Widget'' None))) None])
       (Ident 323 ''Run'' None) 301 (FieldList []) NilFieldList []"

definition run_file :: File where
  "run_file =
     \<lparr>file_ast = [point_decl, run_decl], PkgName = ''geo'', Imports = [], Funcs = [], Types = []\<rparr>"

text \<open>
  Two files of one package that both declare a type \<^verbatim>\<open>T\<close>: the entity of \<open>other_file\<close> is
  at address 0, the entity of \<open>origin_file\<close> at address 1.
\<close>

definition dup_store :: Store where
  "dup_store =
     \<lparr>cells = (\<lambda>a. no_entity)
        (0 := newBasicOrAliasType (Some ''T'') None NoPos (Ident 30 ''int'' None),
         1 := newBasicOrAliasType (Some ''T'') None NoPos (Ident 60 ''string'' None)),
      nxt = 2\<rparr>"

definition other_file :: File where
  "other_file = \<lparr>file_ast = [], PkgName = ''geo'', Imports = [], Funcs = [], Types = [(30, 0)]\<rparr>"

definition origin_file :: File where
  "origin_file = \<lparr>file_ast = [], PkgName = ''geo'', Imports = [], Funcs = [], Types = [(60, 1)]\<rparr>"

text \<open>
  A module with a package \<^verbatim>\<open>util\<close> that declares \<^verbatim>\<open>Widget\<close> (address 0), and a file of
  package \<^verbatim>\<open>app\<close> that imports \<^verbatim>\<open>util\<close> and declares nothing.
\<close>

definition widget_store :: Store where
  "widget_store =
     \<lparr>cells = (\<lambda>a. no_entity)
        (0 := newStructType (Some ''Widget'') None NoPos 40 (FieldList [])),
      nxt = 1\<rparr>"

definition widget_file :: File where
  "widget_file = \<lparr>file_ast = [], PkgName = ''util'', Imports = [], Funcs = [], Types = [(40, 0)]\<rparr>"

definition app_file :: File where
  "app_file =
     \<lparr>file_ast = [], PkgName = ''app'',
      Imports = [\<lparr>imp_Name = ''util'', imp_Path = ''example.com/util''\<rparr>], Funcs = [], Types = []\<rparr>"

definition app_module :: Module where
  "app_module = [(''util'', \<lparr>Files = [widget_file]\<rparr>), (''app'', \<lparr>Files = [app_file]\<rparr>)]"

text \<open>
  A field group \<^verbatim>\<open>X, Y int `json`\<close> with two names and a tag, and an embedded field
  \<^verbatim>\<open>Base\<close> with none.
\<close>

definition xy_group :: Field where
  "xy_group =
     Field [Ident 21 ''X'' None, Ident 24 ''Y'' None] (IdentE (Ident 26 ''int'' None))
       (Some (BasicLit 30 ''STRING'' ''`json`''))"

definition embedded_group :: Field where
  "embedded_group = Field [] (IdentE (Ident 40 ''Base'' None)) None"


text \<open>
  The entities the collector builds for \<^verbatim>\<open>Point\<close>, \<^verbatim>\<open>Len\<close>, \<^verbatim>\<open>Area\<close> and \<^verbatim>\<open>Run\<close>, and the
  store and tables it leaves for a file that declares \<^verbatim>\<open>Point\<close> and one method.
\<close>

definition point_entity :: TypeNode where
  "point_entity =
     \<lparr>tn_name = Some ''Point'', tn_doc = None, tn_assign = NoPos, tn_pos = 12,
      tn_body = StructBody (FieldList
        [Field [Ident 21 ''X'' None] (IdentE (Ident 26 ''int'' None)) None,
         Field [Ident 24 ''Y'' None] (IdentE (Ident 26 ''int'' None)) None]),
      tn_methods = []\<rparr>"

definition len_func :: FuncType where
  "len_func =
     \<lparr>fn_name = Some ''Len'', fn_doc = None, fn_pos = 101,
      fn_recv = Some \<lparr>ff_Name = ''p'', TypeName = ''*Point''\<rparr>,
      fn_params = [], fn_results = [\<lparr>ff_Name = [], TypeName = ''int''\<rparr>], fn_body = []\<rparr>"

definition area_func :: FuncType where
  "area_func =
     \<lparr>fn_name = Some ''Area'', fn_doc = None, fn_pos = 201,
      fn_recv = Some \<lparr>ff_Name = ''p'', TypeName = ''Point''\<rparr>,
      fn_params = [], fn_results = [\<lparr>ff_Name = [], TypeName = ''int''\<rparr>], fn_body = []\<rparr>"

definition run_func :: FuncType where
  "run_func =
     \<lparr>fn_name = Some ''Run'', fn_doc = None, fn_pos = 301,
      fn_recv = Some \<lparr>ff_Name = ''w'', TypeName = ''*util.Widget''\<rparr>,
      fn_params = [], fn_results = [], fn_body = []\<rparr>"

definition point_store :: Store where
  "point_store = \<lparr>cells = (\<lambda>a. no_entity)(0 := point_entity), nxt = 1\<rparr>"

definition area_collected :: File where
  "area_collected = area_file\<lparr>Funcs := [(201, area_func)], Types := [(12, 0)]\<rparr>"

definition run_collected :: File where
  "run_collected = run_file\<lparr>Funcs := [(301, run_func)], Types := [(12, 0)]\<rparr>"

text \<open>The two files of the package \<open>geo_pkg\<close> as the collector leaves them.\<close>

definition len_collected :: File where
  "len_collected = len_file\<lparr>Funcs := [(101, len_func)]\<rparr>"

definition point_collected :: File where
  "point_collected = point_file\<lparr>Types := [(12, 0)]\<rparr>"

text \<open>A renderer that fails on every node.\<close>

definition failing_render :: "Expr \<Rightarrow> error + string" where
  "failing_render node = Inl (RenderError ''format: unsupported node type'')"

section \<open>Properties of the scope resolver\<close>

lemma LookupImports_loop_eq:
  "LookupImports_loop imps n (acc, fnd) =
     (acc @ filter (\<lambda>imp. imp_Name imp = n) imps, fnd \<or> (\<exists>imp \<in> set imps. imp_Name imp = n))"
  by (induction imps arbitrary: acc fnd) auto

lemma LookupImports_eq:
  "LookupImports f n =
     (filter (\<lambda>imp. imp_Name imp = n) (Imports f), \<exists>imp \<in> set (Imports f). imp_Name imp = n)"
  by (simp add: LookupImports_def LookupImports_loop_eq)

lemma LookupPackages_loop_fst:
  "fst (LookupPackages_loop md imps (acc, fnd)) =
     acc @ concat (map (\<lambda>imp. case map_of md (imp_Name imp) of None \<Rightarrow> [] | Some p \<Rightarrow> [p]) imps)"
  by (induction imps arbitrary: acc fnd) (auto split: option.splits)

lemma LookupPackages_loop_snd:
  "fnd \<Longrightarrow> snd (LookupPackages_loop md imps (acc, fnd))"
  by (induction imps arbitrary: acc fnd) (auto split: option.splits)

lemma LookupPackages_no_module:
  "no_module pkg \<Longrightarrow> LookupPackages pkg f n = ([], False)"
  by (cases pkg rule: no_module.cases) (simp_all add: LookupPackages_def)

lemma LookupPackages_module:
  "LookupPackages (InPackage p (Some md)) f n =
     (resolve_alias md f n, \<exists>imp \<in> set (Imports f). imp_Name imp = n)"
proof (cases "\<exists>imp \<in> set (Imports f). imp_Name imp = n")
  case True
  then show ?thesis
    using LookupPackages_loop_fst[of md "filter (\<lambda>imp. imp_Name imp = n) (Imports f)" "[]" True]
      LookupPackages_loop_snd[of True md "filter (\<lambda>imp. imp_Name imp = n) (Imports f)" "[]"]
    by (auto simp: LookupPackages_def LookupImports_eq resolve_alias_def prod_eq_iff)
next
  case False
  then have "filter (\<lambda>imp. imp_Name imp = n) (Imports f) = []"
    by (auto simp: filter_empty_conv)
  with False show ?thesis
    by (auto simp: LookupPackages_def LookupImports_eq resolve_alias_def)
qed

lemma LookupTypeInFiles_append:
  "LookupTypeInFiles h (vs @ ws) n =
     (case LookupTypeInFiles h vs n of Some t \<Rightarrow> Some t | None \<Rightarrow> LookupTypeInFiles h ws n)"
  by (induction vs) (auto split: option.splits)

lemma LookupTypeInFiles_None_iff:
  "LookupTypeInFiles h vs n = None \<longleftrightarrow> (\<forall>v \<in> set vs. LookupTypeInFile h v n = None)"
  by (induction vs) (auto split: option.splits)

lemma LookupTypeInPackages_concat:
  "LookupTypeInPackages h ps n = LookupTypeInFiles h (concat (map Files ps)) n"
  by (induction ps) (auto simp: LookupTypeInFiles_append split: option.splits)

lemma LookupTypeInFile_loop_Some:
  "LookupTypeInFile_loop h ts n = Some a \<Longrightarrow> a \<in> snd ` set ts \<and> TypeNode_Name (cells h a) = n"
  by (induction ts) (auto split: if_splits)

lemma LookupTypeInFile_loop_None_iff:
  "LookupTypeInFile_loop h ts n = None \<longleftrightarrow> (\<forall>a \<in> snd ` set ts. TypeNode_Name (cells h a) \<noteq> n)"
  by (induction ts) (auto split: if_splits)

lemma contains_dot_TrimLeft: "contains_dot (TrimLeft_star n) = contains_dot n"
proof -
  have "set n = set (takeWhile (\<lambda>c. c = CHR ''*'') n) \<union> set (dropWhile (\<lambda>c. c = CHR ''*'') n)"
    by (metis set_append takeWhile_dropWhile_id)
  moreover have "CHR ''.'' \<notin> set (takeWhile (\<lambda>c. c = CHR ''*'') n)"
    by (auto dest: set_takeWhileD)
  ultimately show ?thesis by (auto simp: contains_dot_def TrimLeft_star_def)
qed

text \<open>
  Claim C5. For every name that contains a dot and every origin file with no module
  attached (a standalone file, or a file of a package without a module), module-scope
  lookup returns not-found. \<open>LookupTypeInModule\<close> is a total function with no failing
  branch: it returns for every input.
\<close>

theorem LookupTypeInModule_qualified_no_module:
  assumes "contains_dot name" and "no_module pkg"
  shows "LookupTypeInModule h pkg f name = None"
  using assms
  by (simp add: LookupTypeInModule_def LookupTypeInPackage_def LookupPackages_no_module Let_def)

theorem LookupTypeInModule_qualified_no_module_witness:
  "contains_dot ''util.Widget'' \<and> no_module (InPackage \<lparr>Files = [app_file]\<rparr> None)
   \<and> LookupTypeInModule widget_store (InPackage \<lparr>Files = [app_file]\<rparr> None) app_file ''util.Widget'' = None"
  using LookupTypeInModule_qualified_no_module
    [of "''util.Widget''" "InPackage \<lparr>Files = [app_file]\<rparr> None" widget_store app_file]
  by (simp add: contains_dot_def)

text \<open>
  Claim C10. For a file with no owning package and a name without a dot, package-scope
  lookup is the file-scope lookup, in that file's own table, of the name with its leading
  \<^verbatim>\<open>*\<close> markers stripped: the same entity, or not-found.
\<close>

theorem LookupTypeInPackage_standalone:
  assumes "\<not> contains_dot name"
  shows "LookupTypeInPackage h NoPackage f name
           = LookupTypeInFile h f (dropWhile (\<lambda>c. c = CHR ''*'') name)"
  using assms by (simp add: LookupTypeInPackage_def TrimLeft_star_def)

theorem LookupTypeInPackage_standalone_witness:
  "\<not> contains_dot ''**T''
   \<and> LookupTypeInPackage dup_store NoPackage origin_file ''**T'' = LookupTypeInFile dup_store origin_file ''T''
   \<and> LookupTypeInFile dup_store origin_file ''T'' = Some 1"
  using LookupTypeInPackage_standalone [of "''**T''" dup_store origin_file]
  by (simp add: contains_dot_def LookupTypeInFile_def origin_file_def dup_store_def
      TypeNode_Name_def newBasicOrAliasType_def newTypeNode_def)

text \<open>
  Claim C2, as stated, fails: the two files of a package both declare \<^verbatim>\<open>T\<close>, the loop
  over the package's files visits the other file first, and package-scope lookup from the
  origin file returns the other file's entity (address 0), not the origin file's
  (address 1).
\<close>

theorem LookupTypeInPackage_origin_not_first:
  "LookupTypeInFile dup_store origin_file ''T'' = Some 1
   \<and> LookupTypeInFile dup_store other_file ''T'' = Some 0
   \<and> LookupTypeInPackage dup_store (InPackage \<lparr>Files = [other_file, origin_file]\<rparr> None) origin_file ''T'' = Some 0
   \<and> LookupTypeInPackage dup_store (InPackage \<lparr>Files = [other_file, origin_file]\<rparr> None) origin_file ''T''
       \<noteq> LookupTypeInFile dup_store origin_file ''T''"
  by (simp add: contains_dot_def LookupTypeInPackage_def TrimLeft_star_def LookupTypeInFile_def
      origin_file_def other_file_def dup_store_def TypeNode_Name_def newBasicOrAliasType_def
      newTypeNode_def)

text \<open>
  Claim C2, amended. For a name without a dot, package-scope lookup returns the entity
  declared under the name (leading \<^verbatim>\<open>*\<close> stripped) by the first file, in the order the
  loop visits the package's files, that declares it, whichever file the lookup starts
  from; it is the origin file's entity when no file visited before the origin file declares
  the name.
\<close>

theorem LookupTypeInPackage_first_declaring_file:
  assumes "\<not> contains_dot name"
    and "Files p = vs @ v # ws"
    and "\<forall>u \<in> set vs. LookupTypeInFile h u (TrimLeft_star name) = None"
    and "LookupTypeInFile h v (TrimLeft_star name) = Some t"
  shows "LookupTypeInPackage h (InPackage p md) f name = Some t"
proof -
  have "LookupTypeInFiles h vs (TrimLeft_star name) = None"
    using assms(3) by (simp add: LookupTypeInFiles_None_iff)
  then have "LookupTypeInFiles h (vs @ v # ws) (TrimLeft_star name) = Some t"
    using assms(4) by (simp add: LookupTypeInFiles_append)
  then show ?thesis
    using assms(1,2) by (simp add: LookupTypeInPackage_def)
qed

theorem LookupTypeInPackage_first_declaring_file_witness:
  "\<not> contains_dot ''*T''
   \<and> Files \<lparr>Files = [app_file, origin_file, other_file]\<rparr> = [app_file] @ origin_file # [other_file]
   \<and> LookupTypeInFile dup_store app_file (TrimLeft_star ''*T'') = None
   \<and> LookupTypeInFile dup_store origin_file (TrimLeft_star ''*T'') = Some 1
   \<and> LookupTypeInFile dup_store other_file (TrimLeft_star ''*T'') = Some 0
   \<and> LookupTypeInPackage dup_store (InPackage \<lparr>Files = [app_file, origin_file, other_file]\<rparr> None)
        origin_file ''*T'' = Some 1"
  using LookupTypeInPackage_first_declaring_file
    [of "''*T''" "\<lparr>Files = [app_file, origin_file, other_file]\<rparr>" "[app_file]" origin_file
        "[other_file]" dup_store 1 None origin_file]
  by (simp add: contains_dot_def TrimLeft_star_def LookupTypeInFile_def app_file_def
      origin_file_def other_file_def dup_store_def TypeNode_Name_def newBasicOrAliasType_def
      newTypeNode_def)

text \<open>
  Claim C6. In a module, a name with a dot (leading \<^verbatim>\<open>*\<close> stripped) is split at its first
  dot into alias and identifier; the alias is resolved through the origin file's import
  table to packages of the module; the identifier is looked up in the files of each
  resolved package in turn, and the first match is returned. A name without a dot is first
  looked up in the package; when that fails it is looked up the same way under the alias
  \<^verbatim>\<open>.\<close>, the implicit alias of an unqualified name.
\<close>

theorem LookupTypeInModule_resolution:
  "LookupTypeInModule h (InPackage p (Some md)) f name =
     (let n = TrimLeft_star name in
      if contains_dot name
      then LookupTypeInFiles h (concat (map Files (resolve_alias md f (alias_of n)))) (identifier_of n)
      else (case LookupTypeInFiles h (Files p) n of
              Some t \<Rightarrow> Some t
            | None \<Rightarrow> LookupTypeInFiles h (concat (map Files (resolve_alias md f ''.''))) n))"
proof -
  have empty: "\<And>a. \<not> (\<exists>imp \<in> set (Imports f). imp_Name imp = a) \<Longrightarrow> resolve_alias md f a = []"
    by (auto simp: resolve_alias_def filter_empty_conv)
  show ?thesis
  proof (cases "contains_dot name")
    case True
    then have cd: "contains_dot (TrimLeft_star name)" by (simp add: contains_dot_TrimLeft)
    show ?thesis
      using True cd empty[of "alias_of (TrimLeft_star name)"]
      by (auto simp: LookupTypeInModule_def LookupTypeInPackage_def LookupPackages_module
          SplitN_dot2_def Let_def alias_of_def identifier_of_def LookupTypeInPackages_concat)
  next
    case False
    then have cd: "\<not> contains_dot (TrimLeft_star name)" by (simp add: contains_dot_TrimLeft)
    show ?thesis
      using False cd empty[of "''.''"]
      by (auto simp: LookupTypeInModule_def LookupTypeInPackage_def LookupPackages_module
          SplitN_dot2_def Let_def LookupTypeInPackages_concat split: option.splits)
  qed
qed

theorem LookupTypeInModule_resolution_witness:
  "LookupTypeInModule widget_store (InPackage \<lparr>Files = [app_file]\<rparr> (Some app_module)) app_file ''util.Widget'' = Some 0
   \<and> resolve_alias app_module app_file ''util'' = [\<lparr>Files = [widget_file]\<rparr>]
   \<and> alias_of ''util.Widget'' = ''util'' \<and> identifier_of ''util.Widget'' = ''Widget''"
  using LookupTypeInModule_resolution
    [of widget_store "\<lparr>Files = [app_file]\<rparr>" app_module app_file "''util.Widget''"]
  by (simp add: contains_dot_def TrimLeft_star_def alias_of_def identifier_of_def resolve_alias_def
      app_module_def app_file_def widget_file_def widget_store_def LookupTypeInFile_def
      TypeNode_Name_def newStructType_def newTypeNode_def)

section \<open>Properties of rendering\<close>

text \<open>
  Claim C9, as stated, fails: when rendering fails and \<^verbatim>\<open>TryFormat\<close> was given no
  fallback, it returns the empty string; the error does not reach its caller, where the
  claim asks for the failure to propagate.
\<close>

theorem TryFormat_no_fallback_swallows_failure:
  "TryFormat failing_render (IdentE (Ident 1 ''T'' None)) [] = []
   \<and> rendering_failure_spec failing_render (IdentE (Ident 1 ''T'' None)) []
       = Inl (RenderError ''format: unsupported node type'')
   \<and> Inr (TryFormat failing_render (IdentE (Ident 1 ''T'' None)) [])
       \<noteq> rendering_failure_spec failing_render (IdentE (Ident 1 ''T'' None)) []"
  by (simp add: TryFormat_def Format_def failing_render_def rendering_failure_spec_def)

text \<open>
  Claim C9, amended. When rendering a node fails, \<^verbatim>\<open>Format\<close> returns the error to its
  caller (with the empty string); \<^verbatim>\<open>TryFormat\<close> returns the first fallback when the caller
  supplied one, and the empty string when it supplied none.
\<close>

theorem rendering_failure_handling:
  assumes "render node = Inl err"
  shows "Format render node = ([], Some err)
         \<and> TryFormat render node (d # ds) = d
         \<and> TryFormat render node [] = []"
  using assms by (simp add: Format_def TryFormat_def)

theorem rendering_failure_handling_witness:
  "failing_render (IdentE (Ident 1 ''T'' None)) = Inl (RenderError ''format: unsupported node type'')
   \<and> Format failing_render (IdentE (Ident 1 ''T'' None))
        = ([], Some (RenderError ''format: unsupported node type''))
   \<and> TryFormat failing_render (IdentE (Ident 1 ''T'' None)) [''interface{}'', ''any''] = ''interface{}''
   \<and> TryFormat failing_render (IdentE (Ident 1 ''T'' None)) [] = []"
  using rendering_failure_handling
    [of failing_render "IdentE (Ident 1 ''T'' None)" "RenderError ''format: unsupported node type''"
        "''interface{}''" "[''any'']"]
  by (simp add: failing_render_def)

section \<open>Properties of the field normaliser\<close>

lemma expandFields_loop_append:
  "expandFields_loop (gs @ gs') = expandFields_loop gs @ expandFields_loop gs'"
  by (induction gs) auto

lemma expandFuncFields_loop_append:
  "expandFuncFields_loop render (gs @ gs') =
     expandFuncFields_loop render gs @ expandFuncFields_loop render gs'"
  by (induction gs) (auto simp: Let_def)

lemma tag_text_clone: "tag_text (cloneBasicLit b) = tag_text b"
  by (cases b) (simp_all add: tag_text_def cloneBasicLit_def)

lemma expand_group:
  assumes "Names g \<noteq> []"
  shows "map (\<lambda>x. (Names x, Type x, tag_text (Tag x))) (expandFields_loop [g])
           = map (\<lambda>n. ([n], Type g, tag_text (Tag g))) (Names g)"
proof (cases "Names g")
  case Nil
  with assms show ?thesis by simp
next
  case (Cons n ns)
  show ?thesis
  proof (cases ns)
    case Nil
    with Cons show ?thesis by (cases g) simp
  next
    case (Cons n' ns')
    with \<open>Names g = n # ns\<close> show ?thesis by (simp add: tag_text_clone comp_def)
  qed
qed

text \<open>
  Claim C4. A field group with \<open>k \<ge> 1\<close> names gives exactly \<open>k\<close> fields, one per name in
  the order of declaration, each with the type of the group and the content of its tag
  (for a function field: each with the rendered type of the group); a group with no name
  gives exactly one nameless field. The fields of a list are those of its groups, in
  order.
\<close>

theorem field_normalisation:
  "(Names g \<noteq> [] \<longrightarrow>
      map (\<lambda>x. (Names x, Type x, tag_text (Tag x))) (expandFields_loop [g])
        = map (\<lambda>n. ([n], Type g, tag_text (Tag g))) (Names g)
      \<and> length (expandFields_loop [g]) = length (Names g)
      \<and> expandFuncFields_loop render [g]
        = map (\<lambda>n. \<lparr>ff_Name = Name n, TypeName = TryFormat render (Type g) []\<rparr>) (Names g))
   \<and> (Names g = [] \<longrightarrow>
      expandFields_loop [g] = [g]
      \<and> expandFuncFields_loop render [g] = [\<lparr>ff_Name = [], TypeName = TryFormat render (Type g) []\<rparr>])
   \<and> expandFields_loop (gs @ g # gs')
        = expandFields_loop gs @ expandFields_loop [g] @ expandFields_loop gs'
   \<and> expandFuncFields_loop render (gs @ g # gs')
        = expandFuncFields_loop render gs @ expandFuncFields_loop render [g]
          @ expandFuncFields_loop render gs'"
proof (intro conjI impI)
  assume ne: "Names g \<noteq> []"
  show m: "map (\<lambda>x. (Names x, Type x, tag_text (Tag x))) (expandFields_loop [g])
        = map (\<lambda>n. ([n], Type g, tag_text (Tag g))) (Names g)"
    using ne by (rule expand_group)
  have "length (map (\<lambda>x. (Names x, Type x, tag_text (Tag x))) (expandFields_loop [g]))
        = length (map (\<lambda>n. ([n], Type g, tag_text (Tag g))) (Names g))"
    by (simp only: m)
  then show "length (expandFields_loop [g]) = length (Names g)"
    by (simp only: length_map)
  show "expandFuncFields_loop render [g]
        = map (\<lambda>n. \<lparr>ff_Name = Name n, TypeName = TryFormat render (Type g) []\<rparr>) (Names g)"
    using ne by (simp add: Let_def)
next
  assume e: "Names g = []"
  show "expandFields_loop [g] = [g]"
    using e by simp
  show "expandFuncFields_loop render [g] = [\<lparr>ff_Name = [], TypeName = TryFormat render (Type g) []\<rparr>]"
    using e by (simp add: Let_def)
next
  have "expandFields_loop (gs @ [g] @ gs')
        = expandFields_loop gs @ expandFields_loop [g] @ expandFields_loop gs'"
    by (simp only: expandFields_loop_append)
  then show "expandFields_loop (gs @ g # gs')
        = expandFields_loop gs @ expandFields_loop [g] @ expandFields_loop gs'"
    by simp
next
  have "expandFuncFields_loop render (gs @ [g] @ gs')
        = expandFuncFields_loop render gs @ expandFuncFields_loop render [g]
          @ expandFuncFields_loop render gs'"
    by (simp only: expandFuncFields_loop_append)
  then show "expandFuncFields_loop render (gs @ g # gs')
        = expandFuncFields_loop render gs @ expandFuncFields_loop render [g]
          @ expandFuncFields_loop render gs'"
    by simp
qed

theorem field_normalisation_witness:
  "Names xy_group \<noteq> []
   \<and> map (\<lambda>x. (Names x, Type x, tag_text (Tag x))) (expandFields_loop [xy_group])
      = [([Ident 21 ''X'' None], IdentE (Ident 26 ''int'' None), Some (''STRING'', ''`json`'')),
         ([Ident 24 ''Y'' None], IdentE (Ident 26 ''int'' None), Some (''STRING'', ''`json`''))]
   \<and> length (expandFields_loop [xy_group]) = 2
   \<and> expandFuncFields_loop example_render [xy_group]
      = [\<lparr>ff_Name = ''X'', TypeName = ''int''\<rparr>, \<lparr>ff_Name = ''Y'', TypeName = ''int''\<rparr>]
   \<and> Names embedded_group = []
   \<and> expandFields_loop [embedded_group] = [embedded_group]
   \<and> expandFuncFields_loop example_render [embedded_group] = [\<lparr>ff_Name = [], TypeName = ''Base''\<rparr>]"
proof -
  have xy: "Names xy_group \<noteq> []"
    by (simp add: xy_group_def)
  have em: "Names embedded_group = []"
    by (simp add: embedded_group_def)
  have names: "Names xy_group = [Ident 21 ''X'' None, Ident 24 ''Y'' None]"
    and ty: "Type xy_group = IdentE (Ident 26 ''int'' None)"
    and tg: "tag_text (Tag xy_group) = Some (''STRING'', ''`json`'')"
    and ety: "Type embedded_group = IdentE (Ident 40 ''Base'' None)"
    by (simp_all add: xy_group_def embedded_group_def tag_text_def)
  have fmt: "TryFormat example_render (IdentE (Ident 26 ''int'' None)) [] = ''int''"
    "TryFormat example_render (IdentE (Ident 40 ''Base'' None)) [] = ''Base''"
    by (simp_all add: TryFormat_def Format_def)
  from field_normalisation [of xy_group example_render "[]" "[]"] xy
  have a: "map (\<lambda>x. (Names x, Type x, tag_text (Tag x))) (expandFields_loop [xy_group])
        = map (\<lambda>n. ([n], Type xy_group, tag_text (Tag xy_group))) (Names xy_group)"
    and b: "length (expandFields_loop [xy_group]) = length (Names xy_group)"
    and c: "expandFuncFields_loop example_render [xy_group]
        = map (\<lambda>n. \<lparr>ff_Name = Name n, TypeName = TryFormat example_render (Type xy_group) []\<rparr>)
            (Names xy_group)"
    by blast+
  from field_normalisation [of embedded_group example_render "[]" "[]"] em
  have d: "expandFields_loop [embedded_group] = [embedded_group]"
    and e: "expandFuncFields_loop example_render [embedded_group]
        = [\<lparr>ff_Name = [], TypeName = TryFormat example_render (Type embedded_group) []\<rparr>]"
    by blast+
  show ?thesis
    using xy em a b c d e by (simp add: names ty tg ety fmt)
qed

section \<open>Properties of the declaration collector\<close>




end
